theory Spec2Isabelle
  imports Complex_Main "HOL-Library.AList"
begin

section \<open>Python values\<close>

text \<open>
  The module \<^verbatim>\<open>actions.py\<close> moves plain Python values between action instances and
  dictionaries. \<open>pyval\<close> is the universe of the values a dictionary of the codec holds:
  the values a JSON text parses to (\<open>None\<close>, booleans, integers, floats, strings, lists)
  and tuples, the declared type of the vector and quaternion fields. Floats are carried,
  compared and never computed with, so a float is a \<open>real\<close> here; the one float constant
  of the module is the default \<open>90.0\<close>.

  An attribute of an instance is a plain value or a numpy \<open>ndarray\<close>, the one kind of
  value the encoder converts. An array is represented by the value its \<open>tolist()\<close>
  returns.

  A Python \<open>dict\<close> keeps its keys in insertion order: it is an association list, a store
  \<open>d[k] = v\<close> is \<open>AList.update k v d\<close> (the value replaced in place when the key is there,
  the pair appended otherwise) and a read is \<open>map_of d k\<close>.
\<close>

datatype pyval =
    PNone
  | PBool bool
  | PInt int
  | PFloat real
  | PStr string
  | PList "pyval list"
  | PTuple "pyval list"

datatype attr =
    Plain pyval
  | Ndarray pyval

type_synonym py_dict = "(string \<times> pyval) list"

text \<open>
  The exceptions the codec raises. The two \<open>ValueError\<close>s of \<open>object_hook\<close> differ by
  their message only: \<open>Missing_action_key\<close> is
  \<^verbatim>\<open>"Invalid action object: missing 'action' key."\<close> and \<open>Unknown_action v\<close> is
  \<^verbatim>\<open>f"Invalid action object: unknown action '{action}'."\<close> for the value \<open>v\<close> of \<open>action\<close>.
  \<open>KeyError k\<close> is what \<open>obj[k]\<close> raises when the key is absent, \<open>TypeError v\<close> what
  \<open>tuple(v)\<close> raises when \<open>v\<close> is not iterable, \<open>AttributeError k\<close> what reading an
  attribute that is not set raises.
\<close>

datatype value_error_message =
    Missing_action_key
  | Unknown_action pyval

datatype exn =
    ValueError value_error_message
  | KeyError string
  | TypeError pyval
  | AttributeError string

definition bind :: "exn + 'a \<Rightarrow> ('a \<Rightarrow> exn + 'b) \<Rightarrow> exn + 'b" where
  "bind m f = (case m of Inl e \<Rightarrow> Inl e | Inr v \<Rightarrow> f v)"

section \<open>The name of an action\<close>

text \<open>
  The fourteen concrete subclasses of \<open>Action\<close>, in the order the module declares them,
  and the \<open>__name__\<close> of each.
\<close>

datatype action_class =
    LookDown
  | LookUp
  | MoveForward
  | MoveTangentially
  | OrientHorizontal
  | OrientVertical
  | SetAgentPitch
  | SetAgentPose
  | SetSensorPitch
  | SetSensorPose
  | SetSensorRotation
  | SetYaw
  | TurnLeft
  | TurnRight

fun class_name :: "action_class \<Rightarrow> string" where
  "class_name LookDown = ''LookDown''"
| "class_name LookUp = ''LookUp''"
| "class_name MoveForward = ''MoveForward''"
| "class_name MoveTangentially = ''MoveTangentially''"
| "class_name OrientHorizontal = ''OrientHorizontal''"
| "class_name OrientVertical = ''OrientVertical''"
| "class_name SetAgentPitch = ''SetAgentPitch''"
| "class_name SetAgentPose = ''SetAgentPose''"
| "class_name SetSensorPitch = ''SetSensorPitch''"
| "class_name SetSensorPose = ''SetSensorPose''"
| "class_name SetSensorRotation = ''SetSensorRotation''"
| "class_name SetYaw = ''SetYaw''"
| "class_name TurnLeft = ''TurnLeft''"
| "class_name TurnRight = ''TurnRight''"

text \<open>
  \<open>str.isupper\<close> and \<open>str.lower\<close> on one character. Class names are ASCII identifiers;
  on ASCII the uppercase characters are \<open>A\<close> to \<open>Z\<close> (codes 65 to 90) and lowering adds 32.
  \<open>lstrip chars\<close> drops the leading characters that occur in \<open>chars\<close>.
\<close>

definition isupper :: "char \<Rightarrow> bool" where
  "isupper c = (65 \<le> (of_char c :: nat) \<and> (of_char c :: nat) \<le> 90)"

definition lower :: "char \<Rightarrow> char" where
  "lower c = (if isupper c then char_of ((of_char c :: nat) + 32) else c)"

definition lstrip :: "string \<Rightarrow> string \<Rightarrow> string" where
  "lstrip chars s = dropWhile (\<lambda>c. c \<in> set chars) s"

text \<open>
  \<^verbatim>\<open>"".join(["_" + char.lower() if char.isupper() else char for char in name]).lstrip("_")\<close>
\<close>

definition camel_case_to_snake_case :: "string \<Rightarrow> string" where
  "camel_case_to_snake_case name =
     lstrip ''_''
       (concat (map (\<lambda>char. if isupper char then ''_'' @ [lower char] else [char]) name))"

definition action_name :: "action_class \<Rightarrow> string" where
  "action_name c = camel_case_to_snake_case (class_name c)"

section \<open>Action instances\<close>

text \<open>
  An instance is its class and its \<open>__dict__\<close>, the attributes in the order they were
  first assigned. \<open>self.key = value\<close> stores into \<open>__dict__\<close>. No constructor checks the
  type of an argument, so a constructor takes any attribute value.
\<close>

record action =
  inst_class :: action_class
  inst_dict :: "(string \<times> attr) list"

definition new_instance :: "action_class \<Rightarrow> action" where
  "new_instance c = \<lparr>inst_class = c, inst_dict = []\<rparr>"

definition setattr :: "action \<Rightarrow> string \<Rightarrow> attr \<Rightarrow> action" where
  "setattr self key v = self\<lparr>inst_dict := AList.update key v (inst_dict self)\<rparr>"

definition getattr :: "action \<Rightarrow> string \<Rightarrow> exn + attr" where
  "getattr self key =
     (case map_of (inst_dict self) key of None \<Rightarrow> Inl (AttributeError key) | Some v \<Rightarrow> Inr v)"

text \<open>The property \<open>name\<close>: \<^verbatim>\<open>self.__class__.action_name()\<close>.\<close>

definition name :: "action \<Rightarrow> string" where
  "name self = action_name (inst_class self)"

text \<open>\<open>Action.__init__\<close> and the \<open>__init__\<close> of each subclass, assignment by assignment.\<close>

definition Action_init :: "action \<Rightarrow> attr \<Rightarrow> action" where
  "Action_init self agent_id = setattr self ''agent_id'' agent_id"

text \<open>
  \<open>constraint_degrees\<close> has the default \<open>90.0\<close>: the argument is optional, \<open>None\<close> is the
  call that leaves it out.
\<close>

definition LookDown_init :: "attr \<Rightarrow> attr \<Rightarrow> attr option \<Rightarrow> action" where
  "LookDown_init agent_id rotation_degrees constraint_degrees =
     (let self = Action_init (new_instance LookDown) agent_id;
          self = setattr self ''constraint_degrees''
                   (case constraint_degrees of None \<Rightarrow> Plain (PFloat 90) | Some v \<Rightarrow> v);
          self = setattr self ''rotation_degrees'' rotation_degrees
      in self)"

definition LookUp_init :: "attr \<Rightarrow> attr \<Rightarrow> attr option \<Rightarrow> action" where
  "LookUp_init agent_id rotation_degrees constraint_degrees =
     (let self = Action_init (new_instance LookUp) agent_id;
          self = setattr self ''constraint_degrees''
                   (case constraint_degrees of None \<Rightarrow> Plain (PFloat 90) | Some v \<Rightarrow> v);
          self = setattr self ''rotation_degrees'' rotation_degrees
      in self)"

definition MoveForward_init :: "attr \<Rightarrow> attr \<Rightarrow> action" where
  "MoveForward_init agent_id distance =
     (let self = Action_init (new_instance MoveForward) agent_id;
          self = setattr self ''distance'' distance
      in self)"

definition MoveTangentially_init :: "attr \<Rightarrow> attr \<Rightarrow> attr \<Rightarrow> action" where
  "MoveTangentially_init agent_id distance direction =
     (let self = Action_init (new_instance MoveTangentially) agent_id;
          self = setattr self ''distance'' distance;
          self = setattr self ''direction'' direction
      in self)"

definition OrientHorizontal_init :: "attr \<Rightarrow> attr \<Rightarrow> attr \<Rightarrow> attr \<Rightarrow> action" where
  "OrientHorizontal_init agent_id rotation_degrees left_distance forward_distance =
     (let self = Action_init (new_instance OrientHorizontal) agent_id;
          self = setattr self ''rotation_degrees'' rotation_degrees;
          self = setattr self ''left_distance'' left_distance;
          self = setattr self ''forward_distance'' forward_distance
      in self)"

definition OrientVertical_init :: "attr \<Rightarrow> attr \<Rightarrow> attr \<Rightarrow> attr \<Rightarrow> action" where
  "OrientVertical_init agent_id rotation_degrees down_distance forward_distance =
     (let self = Action_init (new_instance OrientVertical) agent_id;
          self = setattr self ''rotation_degrees'' rotation_degrees;
          self = setattr self ''down_distance'' down_distance;
          self = setattr self ''forward_distance'' forward_distance
      in self)"

definition SetAgentPitch_init :: "attr \<Rightarrow> attr \<Rightarrow> action" where
  "SetAgentPitch_init agent_id pitch_degrees =
     (let self = Action_init (new_instance SetAgentPitch) agent_id;
          self = setattr self ''pitch_degrees'' pitch_degrees
      in self)"

definition SetAgentPose_init :: "attr \<Rightarrow> attr \<Rightarrow> attr \<Rightarrow> action" where
  "SetAgentPose_init agent_id location rotation_quat =
     (let self = Action_init (new_instance SetAgentPose) agent_id;
          self = setattr self ''location'' location;
          self = setattr self ''rotation_quat'' rotation_quat
      in self)"

definition SetSensorPitch_init :: "attr \<Rightarrow> attr \<Rightarrow> action" where
  "SetSensorPitch_init agent_id pitch_degrees =
     (let self = Action_init (new_instance SetSensorPitch) agent_id;
          self = setattr self ''pitch_degrees'' pitch_degrees
      in self)"

definition SetSensorPose_init :: "attr \<Rightarrow> attr \<Rightarrow> attr \<Rightarrow> action" where
  "SetSensorPose_init agent_id location rotation_quat =
     (let self = Action_init (new_instance SetSensorPose) agent_id;
          self = setattr self ''location'' location;
          self = setattr self ''rotation_quat'' rotation_quat
      in self)"

definition SetSensorRotation_init :: "attr \<Rightarrow> attr \<Rightarrow> action" where
  "SetSensorRotation_init agent_id rotation_quat =
     (let self = Action_init (new_instance SetSensorRotation) agent_id;
          self = setattr self ''rotation_quat'' rotation_quat
      in self)"

definition SetYaw_init :: "attr \<Rightarrow> attr \<Rightarrow> action" where
  "SetYaw_init agent_id rotation_degrees =
     (let self = Action_init (new_instance SetYaw) agent_id;
          self = setattr self ''rotation_degrees'' rotation_degrees
      in self)"

definition TurnLeft_init :: "attr \<Rightarrow> attr \<Rightarrow> action" where
  "TurnLeft_init agent_id rotation_degrees =
     (let self = Action_init (new_instance TurnLeft) agent_id;
          self = setattr self ''rotation_degrees'' rotation_degrees
      in self)"

definition TurnRight_init :: "attr \<Rightarrow> attr \<Rightarrow> action" where
  "TurnRight_init agent_id rotation_degrees =
     (let self = Action_init (new_instance TurnRight) agent_id;
          self = setattr self ''rotation_degrees'' rotation_degrees
      in self)"

section \<open>The encoder\<close>

text \<open>
  \<open>Action.__iter__\<close> yields \<open>("action", self.name)\<close>, then the items of \<open>__dict__\<close> whose
  key is not \<open>"name"\<close>. \<open>dict(pairs)\<close> stores the pairs one after the other.
\<close>

definition action_iter :: "action \<Rightarrow> (string \<times> attr) list" where
  "action_iter self =
     (''action'', Plain (PStr (name self))) #
     filter (\<lambda>(key, value). key \<noteq> ''name'') (inst_dict self)"

definition dict_from_pairs :: "(string \<times> 'v) list \<Rightarrow> (string \<times> 'v) list" where
  "dict_from_pairs pairs = foldl (\<lambda>d (key, value). AList.update key value d) [] pairs"

text \<open>
  \<open>ActionJSONEncoder.default\<close> on an action: every item of \<open>dict(obj)\<close> is stored into a
  fresh dictionary, an \<open>ndarray\<close> as its \<open>tolist()\<close>, any other value as it is.
\<close>

definition ActionJSONEncoder_default :: "action \<Rightarrow> py_dict" where
  "ActionJSONEncoder_default obj =
     foldl
       (\<lambda>o' (key, value).
          (case value of
             Ndarray l \<Rightarrow> AList.update key l o'
           | Plain v \<Rightarrow> AList.update key v o'))
       [] (dict_from_pairs (action_iter obj))"

section \<open>The decoder\<close>

text \<open>
  \<open>key in obj\<close>, \<open>obj[key]\<close> and \<open>tuple(v)\<close>. A list, a tuple and a string are iterable
  (a string gives the tuple of its characters); \<open>None\<close>, a boolean and a number are not.
\<close>

definition contains :: "py_dict \<Rightarrow> string \<Rightarrow> bool" where
  "contains obj key = (key \<in> fst ` set obj)"

definition getitem :: "py_dict \<Rightarrow> string \<Rightarrow> exn + pyval" where
  "getitem obj key = (case map_of obj key of None \<Rightarrow> Inl (KeyError key) | Some v \<Rightarrow> Inr v)"

fun py_tuple :: "pyval \<Rightarrow> exn + pyval" where
  "py_tuple (PList xs) = Inr (PTuple xs)"
| "py_tuple (PTuple xs) = Inr (PTuple xs)"
| "py_tuple (PStr s) = Inr (PTuple (map (\<lambda>c. PStr [c]) s))"
| "py_tuple v = Inl (TypeError v)"

text \<open>
  \<open>ActionJSONDecoder.object_hook\<close>. The keyword arguments of a constructor call are
  evaluated from left to right, so the first read or conversion that raises decides the
  exception.
\<close>

definition object_hook :: "py_dict \<Rightarrow> exn + action" where
  "object_hook obj =
     (if \<not> contains obj ''action'' then Inl (ValueError Missing_action_key)
      else bind (getitem obj ''action'') (\<lambda>action.
        if action = PStr (action_name LookDown) then
          bind (getitem obj ''agent_id'') (\<lambda>agent_id.
          bind (getitem obj ''rotation_degrees'') (\<lambda>rotation_degrees.
          bind (getitem obj ''constraint_degrees'') (\<lambda>constraint_degrees.
          Inr (LookDown_init (Plain agent_id) (Plain rotation_degrees)
                 (Some (Plain constraint_degrees))))))
        else if action = PStr (action_name LookUp) then
          bind (getitem obj ''agent_id'') (\<lambda>agent_id.
          bind (getitem obj ''rotation_degrees'') (\<lambda>rotation_degrees.
          bind (getitem obj ''constraint_degrees'') (\<lambda>constraint_degrees.
          Inr (LookUp_init (Plain agent_id) (Plain rotation_degrees)
                 (Some (Plain constraint_degrees))))))
        else if action = PStr (action_name MoveForward) then
          bind (getitem obj ''agent_id'') (\<lambda>agent_id.
          bind (getitem obj ''distance'') (\<lambda>distance.
          Inr (MoveForward_init (Plain agent_id) (Plain distance))))
        else if action = PStr (action_name MoveTangentially) then
          bind (getitem obj ''agent_id'') (\<lambda>agent_id.
          bind (getitem obj ''distance'') (\<lambda>distance.
          bind (bind (getitem obj ''direction'') py_tuple) (\<lambda>direction.
          Inr (MoveTangentially_init (Plain agent_id) (Plain distance) (Plain direction)))))
        else if action = PStr (action_name OrientHorizontal) then
          bind (getitem obj ''agent_id'') (\<lambda>agent_id.
          bind (getitem obj ''rotation_degrees'') (\<lambda>rotation_degrees.
          bind (getitem obj ''left_distance'') (\<lambda>left_distance.
          bind (getitem obj ''forward_distance'') (\<lambda>forward_distance.
          Inr (OrientHorizontal_init (Plain agent_id) (Plain rotation_degrees)
                 (Plain left_distance) (Plain forward_distance))))))
        else if action = PStr (action_name OrientVertical) then
          bind (getitem obj ''agent_id'') (\<lambda>agent_id.
          bind (getitem obj ''rotation_degrees'') (\<lambda>rotation_degrees.
          bind (getitem obj ''down_distance'') (\<lambda>down_distance.
          bind (getitem obj ''forward_distance'') (\<lambda>forward_distance.
          Inr (OrientVertical_init (Plain agent_id) (Plain rotation_degrees)
                 (Plain down_distance) (Plain forward_distance))))))
        else if action = PStr (action_name SetAgentPitch) then
          bind (getitem obj ''agent_id'') (\<lambda>agent_id.
          bind (getitem obj ''pitch_degrees'') (\<lambda>pitch_degrees.
          Inr (SetAgentPitch_init (Plain agent_id) (Plain pitch_degrees))))
        else if action = PStr (action_name SetAgentPose) then
          bind (getitem obj ''agent_id'') (\<lambda>agent_id.
          bind (bind (getitem obj ''location'') py_tuple) (\<lambda>location.
          bind (bind (getitem obj ''rotation_quat'') py_tuple) (\<lambda>rotation_quat.
          Inr (SetAgentPose_init (Plain agent_id) (Plain location) (Plain rotation_quat)))))
        else if action = PStr (action_name SetSensorPitch) then
          bind (getitem obj ''agent_id'') (\<lambda>agent_id.
          bind (getitem obj ''pitch_degrees'') (\<lambda>pitch_degrees.
          Inr (SetSensorPitch_init (Plain agent_id) (Plain pitch_degrees))))
        else if action = PStr (action_name SetSensorPose) then
          bind (getitem obj ''agent_id'') (\<lambda>agent_id.
          bind (bind (getitem obj ''location'') py_tuple) (\<lambda>location.
          bind (bind (getitem obj ''rotation_quat'') py_tuple) (\<lambda>rotation_quat.
          Inr (SetSensorPose_init (Plain agent_id) (Plain location) (Plain rotation_quat)))))
        else if action = PStr (action_name SetSensorRotation) then
          bind (getitem obj ''agent_id'') (\<lambda>agent_id.
          bind (bind (getitem obj ''rotation_quat'') py_tuple) (\<lambda>rotation_quat.
          Inr (SetSensorRotation_init (Plain agent_id) (Plain rotation_quat))))
        else if action = PStr (action_name SetYaw) then
          bind (getitem obj ''agent_id'') (\<lambda>agent_id.
          bind (getitem obj ''rotation_degrees'') (\<lambda>rotation_degrees.
          Inr (SetYaw_init (Plain agent_id) (Plain rotation_degrees))))
        else if action = PStr (action_name TurnLeft) then
          bind (getitem obj ''agent_id'') (\<lambda>agent_id.
          bind (getitem obj ''rotation_degrees'') (\<lambda>rotation_degrees.
          Inr (TurnLeft_init (Plain agent_id) (Plain rotation_degrees))))
        else if action = PStr (action_name TurnRight) then
          bind (getitem obj ''agent_id'') (\<lambda>agent_id.
          bind (getitem obj ''rotation_degrees'') (\<lambda>rotation_degrees.
          Inr (TurnRight_init (Plain agent_id) (Plain rotation_degrees))))
        else Inl (ValueError (Unknown_action action))))"

section \<open>The JSON text between the two hooks\<close>

text \<open>
  The encoder's dictionary is written by \<open>json.dumps\<close> and read back by \<open>json.loads\<close>
  before \<open>object_hook\<close> sees it. The \<open>json\<close> module writes a tuple and a list alike as a
  JSON array and reads an array as a list; every other value of \<open>pyval\<close> is read back as
  it was written. The keys keep their order.
\<close>

fun json_value :: "pyval \<Rightarrow> pyval" where
  "json_value (PTuple xs) = PList (map json_value xs)"
| "json_value (PList xs) = PList (map json_value xs)"
| "json_value v = v"

definition json_loads_dumps :: "py_dict \<Rightarrow> py_dict" where
  "json_loads_dumps d = map (\<lambda>(key, value). (key, json_value value)) d"

section \<open>What a branch of the decoder reads\<close>

text \<open>
  The encoder stores \<open>plain_of value\<close> for an attribute \<open>value\<close>: the \<open>tolist()\<close> of an
  array, the value itself otherwise.

  Each branch of \<open>object_hook\<close> reads a fixed list of keys, in the order of the keyword
  arguments of its constructor call (\<open>required_keys\<close>), and passes the values of some of
  them through \<open>tuple()\<close> (\<open>tuple_keys\<close>). \<open>read_args\<close> performs these reads in order and
  stops at the first that raises; \<open>construct\<close> is the constructor call on the values
  read, of which there are as many as required keys (lemma \<open>read_args_length\<close>). Lemma \<open>object_hook_known\<close> below proves that every branch of \<open>object_hook\<close> is
  \<open>read_args\<close> followed by \<open>construct\<close>.

  \<open>without extra obj\<close> is the dictionary \<open>obj\<close> with the keys \<open>extra\<close> removed,
  \<open>all_iterable obj ks\<close> says that each key of \<open>ks\<close> present in \<open>obj\<close> holds an
  iterable value, and \<open>tuple_reads_before c k\<close> lists the keys the branch of class \<open>c\<close>
  passes through \<open>tuple()\<close> before it reads the key \<open>k\<close>.
\<close>

definition plain_of :: "attr \<Rightarrow> pyval" where
  "plain_of a = (case a of Ndarray l \<Rightarrow> l | Plain v \<Rightarrow> v)"

fun required_keys :: "action_class \<Rightarrow> string list" where
  "required_keys LookDown = [''agent_id'', ''rotation_degrees'', ''constraint_degrees'']"
| "required_keys LookUp = [''agent_id'', ''rotation_degrees'', ''constraint_degrees'']"
| "required_keys MoveForward = [''agent_id'', ''distance'']"
| "required_keys MoveTangentially = [''agent_id'', ''distance'', ''direction'']"
| "required_keys OrientHorizontal =
     [''agent_id'', ''rotation_degrees'', ''left_distance'', ''forward_distance'']"
| "required_keys OrientVertical =
     [''agent_id'', ''rotation_degrees'', ''down_distance'', ''forward_distance'']"
| "required_keys SetAgentPitch = [''agent_id'', ''pitch_degrees'']"
| "required_keys SetAgentPose = [''agent_id'', ''location'', ''rotation_quat'']"
| "required_keys SetSensorPitch = [''agent_id'', ''pitch_degrees'']"
| "required_keys SetSensorPose = [''agent_id'', ''location'', ''rotation_quat'']"
| "required_keys SetSensorRotation = [''agent_id'', ''rotation_quat'']"
| "required_keys SetYaw = [''agent_id'', ''rotation_degrees'']"
| "required_keys TurnLeft = [''agent_id'', ''rotation_degrees'']"
| "required_keys TurnRight = [''agent_id'', ''rotation_degrees'']"

fun tuple_keys :: "action_class \<Rightarrow> string list" where
  "tuple_keys MoveTangentially = [''direction'']"
| "tuple_keys SetAgentPose = [''location'', ''rotation_quat'']"
| "tuple_keys SetSensorPose = [''location'', ''rotation_quat'']"
| "tuple_keys SetSensorRotation = [''rotation_quat'']"
| "tuple_keys c = []"

fun iterable :: "pyval \<Rightarrow> bool" where
  "iterable (PList xs) = True"
| "iterable (PTuple xs) = True"
| "iterable (PStr s) = True"
| "iterable v = False"

fun read_args :: "py_dict \<Rightarrow> string list \<Rightarrow> string list \<Rightarrow> exn + pyval list" where
  "read_args obj tks [] = Inr []"
| "read_args obj tks (k # ks) =
     bind (if k \<in> set tks then bind (getitem obj k) py_tuple else getitem obj k) (\<lambda>v.
     bind (read_args obj tks ks) (\<lambda>vs. Inr (v # vs)))"

fun construct :: "action_class \<Rightarrow> pyval list \<Rightarrow> action" where
  "construct LookDown vs = LookDown_init (Plain (vs ! 0)) (Plain (vs ! 1)) (Some (Plain (vs ! 2)))"
| "construct LookUp vs = LookUp_init (Plain (vs ! 0)) (Plain (vs ! 1)) (Some (Plain (vs ! 2)))"
| "construct MoveForward vs = MoveForward_init (Plain (vs ! 0)) (Plain (vs ! 1))"
| "construct MoveTangentially vs =
     MoveTangentially_init (Plain (vs ! 0)) (Plain (vs ! 1)) (Plain (vs ! 2))"
| "construct OrientHorizontal vs =
     OrientHorizontal_init (Plain (vs ! 0)) (Plain (vs ! 1)) (Plain (vs ! 2)) (Plain (vs ! 3))"
| "construct OrientVertical vs =
     OrientVertical_init (Plain (vs ! 0)) (Plain (vs ! 1)) (Plain (vs ! 2)) (Plain (vs ! 3))"
| "construct SetAgentPitch vs = SetAgentPitch_init (Plain (vs ! 0)) (Plain (vs ! 1))"
| "construct SetAgentPose vs = SetAgentPose_init (Plain (vs ! 0)) (Plain (vs ! 1)) (Plain (vs ! 2))"
| "construct SetSensorPitch vs = SetSensorPitch_init (Plain (vs ! 0)) (Plain (vs ! 1))"
| "construct SetSensorPose vs =
     SetSensorPose_init (Plain (vs ! 0)) (Plain (vs ! 1)) (Plain (vs ! 2))"
| "construct SetSensorRotation vs = SetSensorRotation_init (Plain (vs ! 0)) (Plain (vs ! 1))"
| "construct SetYaw vs = SetYaw_init (Plain (vs ! 0)) (Plain (vs ! 1))"
| "construct TurnLeft vs = TurnLeft_init (Plain (vs ! 0)) (Plain (vs ! 1))"
| "construct TurnRight vs = TurnRight_init (Plain (vs ! 0)) (Plain (vs ! 1))"

definition without :: "string list \<Rightarrow> py_dict \<Rightarrow> py_dict" where
  "without extra obj = filter (\<lambda>(key, value). key \<notin> set extra) obj"

definition all_iterable :: "py_dict \<Rightarrow> string list \<Rightarrow> bool" where
  "all_iterable obj ks =
     list_all (\<lambda>k. case map_of obj k of None \<Rightarrow> True | Some v \<Rightarrow> iterable v) ks"

definition tuple_reads_before :: "action_class \<Rightarrow> string \<Rightarrow> string list" where
  "tuple_reads_before c k =
     filter (\<lambda>t. t \<in> set (tuple_keys c)) (takeWhile (\<lambda>j. j \<noteq> k) (required_keys c))"

section \<open>Round trips, typed attributes and the table of the specification\<close>

text \<open>
  \<open>decode_encode\<close> hands the encoder's dictionary to the decoder as it is,
  \<open>decode_json_encode\<close> sends it through the JSON text first; an instance \<open>roundtrips\<close>
  when the decoder returns the instance itself. \<open>str_attr\<close>, \<open>float_attr\<close> and
  \<open>floats_attr\<close> are the attribute values of the declared types: \<open>str\<close>, \<open>float\<close>, and
  a tuple of floats (\<open>VectorXYZ\<close>, \<open>QuaternionWXYZ\<close>) of any length.
\<close>

definition decode_encode :: "action \<Rightarrow> exn + action" where
  "decode_encode a = object_hook (ActionJSONEncoder_default a)"

definition decode_json_encode :: "action \<Rightarrow> exn + action" where
  "decode_json_encode a = object_hook (json_loads_dumps (ActionJSONEncoder_default a))"

definition roundtrips :: "action \<Rightarrow> bool" where
  "roundtrips a = (decode_encode a = Inr a)"

definition roundtrips_json :: "action \<Rightarrow> bool" where
  "roundtrips_json a = (decode_json_encode a = Inr a)"

abbreviation str_attr :: "string \<Rightarrow> attr" where
  "str_attr s \<equiv> Plain (PStr s)"

abbreviation float_attr :: "real \<Rightarrow> attr" where
  "float_attr x \<equiv> Plain (PFloat x)"


text \<open>
  The fields of each variant in the order of the table of section 3 of the specification
  (written from the table, not from the code). Every variant carries \<open>agent_id\<close> before
  them.
\<close>

fun spec_table_fields :: "action_class \<Rightarrow> string list" where
  "spec_table_fields LookDown = [''rotation_degrees'', ''constraint_degrees'']"
| "spec_table_fields LookUp = [''rotation_degrees'', ''constraint_degrees'']"
| "spec_table_fields MoveForward = [''distance'']"
| "spec_table_fields MoveTangentially = [''distance'', ''direction'']"
| "spec_table_fields OrientHorizontal = [''rotation_degrees'', ''left_distance'', ''forward_distance'']"
| "spec_table_fields OrientVertical = [''rotation_degrees'', ''down_distance'', ''forward_distance'']"
| "spec_table_fields SetAgentPitch = [''pitch_degrees'']"
| "spec_table_fields SetSensorPitch = [''pitch_degrees'']"
| "spec_table_fields SetAgentPose = [''location'', ''rotation_quat'']"
| "spec_table_fields SetSensorPose = [''location'', ''rotation_quat'']"
| "spec_table_fields SetSensorRotation = [''rotation_quat'']"
| "spec_table_fields SetYaw = [''rotation_degrees'']"
| "spec_table_fields TurnLeft = [''rotation_degrees'']"
| "spec_table_fields TurnRight = [''rotation_degrees'']"

section \<open>Name derivation\<close>

lemma action_name_simps:
  "action_name LookDown = ''look_down''"
  "action_name LookUp = ''look_up''"
  "action_name MoveForward = ''move_forward''"
  "action_name MoveTangentially = ''move_tangentially''"
  "action_name OrientHorizontal = ''orient_horizontal''"
  "action_name OrientVertical = ''orient_vertical''"
  "action_name SetAgentPitch = ''set_agent_pitch''"
  "action_name SetAgentPose = ''set_agent_pose''"
  "action_name SetSensorPitch = ''set_sensor_pitch''"
  "action_name SetSensorPose = ''set_sensor_pose''"
  "action_name SetSensorRotation = ''set_sensor_rotation''"
  "action_name SetYaw = ''set_yaw''"
  "action_name TurnLeft = ''turn_left''"
  "action_name TurnRight = ''turn_right''"
  by code_simp+

lemma action_name_eq_iff: "action_name c = action_name d \<longleftrightarrow> c = d"
  by (cases c; cases d; simp add: action_name_simps)

text \<open>
  Claim C3. Applied to the name of each variant class, the name derivation yields the
  lowercase, underscore-separated token of the table of section 3 (\<open>LookDown\<close> gives
  \<open>look_down\<close>, \<open>SetSensorPitch\<close> gives \<open>set_sensor_pitch\<close>), and no two classes share a
  token. The module declares fourteen variant classes, the fourteen the table lists; the
  theorem covers every one of them.
\<close>

theorem action_name_tokens_injective:
  "action_name LookDown = ''look_down'' \<and>
   action_name LookUp = ''look_up'' \<and>
   action_name MoveForward = ''move_forward'' \<and>
   action_name MoveTangentially = ''move_tangentially'' \<and>
   action_name OrientHorizontal = ''orient_horizontal'' \<and>
   action_name OrientVertical = ''orient_vertical'' \<and>
   action_name SetAgentPitch = ''set_agent_pitch'' \<and>
   action_name SetAgentPose = ''set_agent_pose'' \<and>
   action_name SetSensorPitch = ''set_sensor_pitch'' \<and>
   action_name SetSensorPose = ''set_sensor_pose'' \<and>
   action_name SetSensorRotation = ''set_sensor_rotation'' \<and>
   action_name SetYaw = ''set_yaw'' \<and>
   action_name TurnLeft = ''turn_left'' \<and>
   action_name TurnRight = ''turn_right'' \<and>
   inj action_name"
  by (simp add: action_name_simps inj_def action_name_eq_iff)

section \<open>The decoder, branch by branch\<close>

lemma contains_iff: "contains obj k \<longleftrightarrow> map_of obj k \<noteq> None"
  by (simp add: contains_def map_of_eq_None_iff)

lemma bind_simps:
  "bind (Inl e) f = Inl e"
  "bind (Inr v) f = f v"
  by (simp_all add: bind_def)

lemma bind_assoc: "bind (bind m f) g = bind m (\<lambda>v. bind (f v) g)"
  by (cases m) (simp_all add: bind_def)

lemma bind_Inr_iff: "bind m f = Inr y \<longleftrightarrow> (\<exists>v. m = Inr v \<and> f v = Inr y)"
  by (cases m) (simp_all add: bind_def)

lemma bind_Inl_iff: "bind m f = Inl e \<longleftrightarrow> m = Inl e \<or> (\<exists>v. m = Inr v \<and> f v = Inl e)"
  by (cases m) (simp_all add: bind_def)

lemma object_hook_known:
  assumes "map_of obj ''action'' = Some (PStr (action_name c))"
  shows "object_hook obj =
           bind (read_args obj (tuple_keys c) (required_keys c)) (\<lambda>vs. Inr (construct c vs))"
  using assms
  by (cases c)
     (simp_all add: object_hook_def contains_iff getitem_def action_name_simps bind_simps bind_assoc)

lemma py_tuple_iterable: "iterable v \<Longrightarrow> \<exists>t. py_tuple v = Inr t"
  by (cases v) simp_all

lemma py_tuple_not_iterable: "\<not> iterable v \<Longrightarrow> py_tuple v = Inl (TypeError v)"
  by (cases v) simp_all

lemma read_args_cong:
  "(\<And>k. k \<in> set ks \<Longrightarrow> map_of obj k = map_of obj' k) \<Longrightarrow>
   read_args obj tks ks = read_args obj' tks ks"
  by (induction ks) (simp_all add: getitem_def)

lemma map_of_without: "k \<notin> set extra \<Longrightarrow> map_of (without extra obj) k = map_of obj k"
  by (induction obj) (auto simp: without_def)

lemma read_args_length: "read_args obj tks ks = Inr vs \<Longrightarrow> length vs = length ks"
  by (induction ks arbitrary: vs) (auto simp: bind_Inr_iff)

lemma read_args_succeeds:
  "\<forall>k\<in>set ks. map_of obj k \<noteq> None \<Longrightarrow> all_iterable obj (filter (\<lambda>k. k \<in> set tks) ks) \<Longrightarrow>
   \<exists>vs. read_args obj tks ks = Inr vs"
proof (induction ks)
  case Nil
  then show ?case by simp
next
  case (Cons k ks)
  then obtain v where v: "map_of obj k = Some v" by auto
  from Cons obtain vs where vs: "read_args obj tks ks = Inr vs"
    by (auto simp: all_iterable_def split: if_splits)
  show ?case
  proof (cases "k \<in> set tks")
    case True
    with Cons.prems v have "iterable v" by (simp add: all_iterable_def)
    then obtain t where "py_tuple v = Inr t" using py_tuple_iterable by blast
    with True v vs show ?thesis by (simp add: getitem_def bind_simps)
  next
    case False
    with v vs show ?thesis by (simp add: getitem_def bind_simps)
  qed
qed

lemma read_args_type_error:
  "\<forall>k\<in>set ks. map_of obj k \<noteq> None \<Longrightarrow> \<not> all_iterable obj (filter (\<lambda>k. k \<in> set tks) ks) \<Longrightarrow>
   \<exists>v. read_args obj tks ks = Inl (TypeError v)"
proof (induction ks)
  case Nil
  then show ?case by (simp add: all_iterable_def)
next
  case (Cons k ks)
  then obtain v where v: "map_of obj k = Some v" by auto
  show ?case
  proof (cases "k \<in> set tks \<and> \<not> iterable v")
    case True
    then show ?thesis using v py_tuple_not_iterable[of v] by (simp add: getitem_def bind_simps)
  next
    case False
    with Cons.prems v have "\<not> all_iterable obj (filter (\<lambda>k. k \<in> set tks) ks)"
      by (auto simp: all_iterable_def split: if_splits)
    with Cons obtain w where w: "read_args obj tks ks = Inl (TypeError w)" by auto
    show ?thesis
    proof (cases "k \<in> set tks")
      case True
      with False have "iterable v" by simp
      then obtain t where "py_tuple v = Inr t" using py_tuple_iterable by blast
      with True v w show ?thesis by (simp add: getitem_def bind_simps)
    next
      case False
      with v w show ?thesis by (simp add: getitem_def bind_simps)
    qed
  qed
qed

lemma read_args_first_missing:
  assumes "find (\<lambda>k. map_of obj k = None) ks = Some k"
  shows "(all_iterable obj (filter (\<lambda>t. t \<in> set tks) (takeWhile (\<lambda>j. j \<noteq> k) ks)) \<longrightarrow>
            read_args obj tks ks = Inl (KeyError k)) \<and>
         (\<not> all_iterable obj (filter (\<lambda>t. t \<in> set tks) (takeWhile (\<lambda>j. j \<noteq> k) ks)) \<longrightarrow>
            (\<exists>v. read_args obj tks ks = Inl (TypeError v)))"
  using assms
proof (induction ks)
  case Nil
  then show ?case by simp
next
  case (Cons j ks)
  show ?case
  proof (cases "map_of obj j")
    case None
    with Cons.prems have "j = k" by simp
    with None show ?thesis by (simp add: getitem_def bind_simps all_iterable_def)
  next
    case (Some v)
    with Cons.prems have f: "find (\<lambda>k. map_of obj k = None) ks = Some k" by simp
    from f have "map_of obj k = None" by (auto simp: find_Some_iff)
    with Some have jk: "j \<noteq> k" by auto
    note IH = Cons.IH[OF f]
    show ?thesis
    proof (cases "j \<in> set tks")
      case False
      with Some jk IH show ?thesis by (auto simp: getitem_def bind_simps all_iterable_def)
    next
      case True
      show ?thesis
      proof (cases "iterable v")
        case it: True
        then obtain t where "py_tuple v = Inr t" using py_tuple_iterable by blast
        with True Some jk IH it show ?thesis by (auto simp: getitem_def bind_simps all_iterable_def)
      next
        case nit: False
        with True Some jk py_tuple_not_iterable[of v] show ?thesis
          by (simp add: getitem_def bind_simps all_iterable_def)
      qed
    qed
  qed
qed

lemma construct_class: "inst_class (construct c vs) = c"
  by (cases c)
     (simp_all add: LookDown_init_def LookUp_init_def MoveForward_init_def
        MoveTangentially_init_def OrientHorizontal_init_def OrientVertical_init_def
        SetAgentPitch_init_def SetAgentPose_init_def SetSensorPitch_init_def SetSensorPose_init_def
        SetSensorRotation_init_def SetYaw_init_def TurnLeft_init_def TurnRight_init_def
        Action_init_def setattr_def new_instance_def)

lemma tuple_keys_required: "filter (\<lambda>k. k \<in> set (tuple_keys c)) (required_keys c) = tuple_keys c"
  by (cases c) simp_all

lemma find_contains:
  "find (\<lambda>k. \<not> contains obj k) ks = find (\<lambda>k. map_of obj k = None) ks"
  by (simp add: contains_iff)

lemma tuple_reads_before_cases:
  "k \<in> set (required_keys c) \<Longrightarrow>
   tuple_reads_before c k =
     (if (c = SetAgentPose \<or> c = SetSensorPose) \<and> k = ''rotation_quat'' then [''location'']
      else [])"
  by (cases c) (auto simp: tuple_reads_before_def)

section \<open>Rejected wire objects\<close>

text \<open>
  Claim C5. A wire object without the key \<open>"action"\<close> is rejected with the malformed-input
  error, the \<open>ValueError\<close> whose message says that the \<open>'action'\<close> key is missing, and no
  action is returned.
\<close>

theorem missing_action_key:
  assumes "\<not> contains obj ''action''"
  shows "object_hook obj = Inl (ValueError Missing_action_key) \<and> (\<forall>a. object_hook obj \<noteq> Inr a)"
  using assms by (simp add: object_hook_def)

theorem missing_action_key_witness:
  "\<not> contains [(''agent_id'', PStr ''agent_01''), (''distance'', PFloat 0.25)] ''action'' \<and>
   object_hook [(''agent_id'', PStr ''agent_01''), (''distance'', PFloat 0.25)] =
     Inl (ValueError Missing_action_key)"
  using missing_action_key [of "[(''agent_id'', PStr ''agent_01''), (''distance'', PFloat 0.25)]"]
  by (simp add: contains_def)

text \<open>
  Claim C6. A wire object whose \<open>"action"\<close> value is the derived name of no variant class
  (a string that is none of the fourteen names, or a value that is not a string) is
  rejected with the unknown-variant error, the \<open>ValueError\<close> whose message quotes the
  value, and no action is returned.
\<close>

theorem unknown_action:
  assumes "map_of obj ''action'' = Some v" and "\<forall>c. v \<noteq> PStr (action_name c)"
  shows "object_hook obj = Inl (ValueError (Unknown_action v)) \<and> (\<forall>a. object_hook obj \<noteq> Inr a)"
  using assms by (simp add: object_hook_def contains_iff getitem_def bind_simps)

theorem unknown_action_witness:
  "map_of [(''action'', PStr ''not_a_real_action''), (''agent_id'', PStr ''a'')] ''action'' =
     Some (PStr ''not_a_real_action'') \<and>
   (\<forall>c. PStr ''not_a_real_action'' \<noteq> PStr (action_name c)) \<and>
   object_hook [(''action'', PStr ''not_a_real_action''), (''agent_id'', PStr ''a'')] =
     Inl (ValueError (Unknown_action (PStr ''not_a_real_action'')))"
proof -
  have n: "\<forall>c. PStr ''not_a_real_action'' \<noteq> PStr (action_name c)"
  proof
    fix c show "PStr ''not_a_real_action'' \<noteq> PStr (action_name c)"
      by (cases c) (simp_all add: action_name_simps)
  qed
  have m: "map_of [(''action'', PStr ''not_a_real_action''), (''agent_id'', PStr ''a'')] ''action'' =
     Some (PStr ''not_a_real_action'')" by simp
  from unknown_action [OF m n] m n show ?thesis by blast
qed

text \<open>
  Claim C4, as stated: every wire object that names a known variant and lacks one of its
  required keys is rejected with the missing-field error. The object
  \<^verbatim>\<open>{"action": "set_agent_pose", "agent_id": "a", "location": 5.0}\<close> lacks
  \<open>rotation_quat\<close>, and decoding it raises the \<open>TypeError\<close> of \<open>tuple(5.0)\<close>: the call
  converts \<open>location\<close> before it looks \<open>rotation_quat\<close> up. No \<open>KeyError\<close> is raised.
\<close>

theorem missing_field_counterexample:
  "map_of [(''action'', PStr ''set_agent_pose''), (''agent_id'', PStr ''a''), (''location'', PFloat 5)]
     ''action'' = Some (PStr (action_name SetAgentPose)) \<and>
   \<not> contains [(''action'', PStr ''set_agent_pose''), (''agent_id'', PStr ''a''), (''location'', PFloat 5)]
     ''rotation_quat'' \<and>
   object_hook [(''action'', PStr ''set_agent_pose''), (''agent_id'', PStr ''a''), (''location'', PFloat 5)]
     = Inl (TypeError (PFloat 5)) \<and>
   (\<forall>k. object_hook [(''action'', PStr ''set_agent_pose''), (''agent_id'', PStr ''a''), (''location'', PFloat 5)]
     \<noteq> Inl (KeyError k))"
  by (simp add: object_hook_def contains_def getitem_def bind_simps action_name_simps)

text \<open>
  Claim C4, amended. A wire object that names a known variant \<open>c\<close> and lacks at least one
  of its required keys is always rejected: no action is returned, and the error is never
  one of the two \<open>ValueError\<close>s of the malformed-input and unknown-variant cases. With
  \<open>k\<close> the first absent key in the order the decoder reads them, the error is the
  missing-field error \<open>KeyError k\<close>, unless a key that is passed through \<open>tuple()\<close>
  before \<open>k\<close> is read holds a value that is not iterable; then it is the \<open>TypeError\<close> of
  that conversion. The only such case is \<open>set_agent_pose\<close> or \<open>set_sensor_pose\<close> with
  \<open>rotation_quat\<close> the first absent key and \<open>location\<close> not iterable.
\<close>

theorem missing_field_error:
  assumes "map_of obj ''action'' = Some (PStr (action_name c))"
      and "\<exists>k\<in>set (required_keys c). \<not> contains obj k"
  shows "\<exists>k. find (\<lambda>k. \<not> contains obj k) (required_keys c) = Some k \<and>
           (\<forall>a. object_hook obj \<noteq> Inr a) \<and>
           (\<forall>m. object_hook obj \<noteq> Inl (ValueError m)) \<and>
           (all_iterable obj (tuple_reads_before c k) \<longrightarrow> object_hook obj = Inl (KeyError k)) \<and>
           (\<not> all_iterable obj (tuple_reads_before c k) \<longrightarrow>
              (\<exists>v. object_hook obj = Inl (TypeError v))) \<and>
           tuple_reads_before c k =
             (if (c = SetAgentPose \<or> c = SetSensorPose) \<and> k = ''rotation_quat''
              then [''location''] else [])"
proof -
  from assms(2) obtain k where k: "find (\<lambda>k. \<not> contains obj k) (required_keys c) = Some k"
    by (cases "find (\<lambda>k. \<not> contains obj k) (required_keys c)") (auto simp: find_None_iff)
  then have kin: "k \<in> set (required_keys c)"
    by (auto simp: find_Some_iff)
  from k have k': "find (\<lambda>k. map_of obj k = None) (required_keys c) = Some k"
    by (simp add: find_contains)
  note fm = read_args_first_missing [OF k', of "tuple_keys c", folded tuple_reads_before_def]
  note hook = object_hook_known [OF assms(1)]
  have 1: "all_iterable obj (tuple_reads_before c k) \<longrightarrow> object_hook obj = Inl (KeyError k)"
    using fm hook by (simp add: bind_simps)
  have 2: "\<not> all_iterable obj (tuple_reads_before c k) \<longrightarrow>
             (\<exists>v. object_hook obj = Inl (TypeError v))"
    using fm hook by (auto simp: bind_simps)
  from 1 2 have 3: "\<forall>a. object_hook obj \<noteq> Inr a"
    by (cases "all_iterable obj (tuple_reads_before c k)") auto
  from 1 2 have 4: "\<forall>m. object_hook obj \<noteq> Inl (ValueError m)"
    by (cases "all_iterable obj (tuple_reads_before c k)") auto
  from k 1 2 3 4 tuple_reads_before_cases [OF kin] show ?thesis by blast
qed

theorem missing_field_error_witness:
  "map_of [(''action'', PStr ''move_forward''), (''agent_id'', PStr ''a'')] ''action'' =
     Some (PStr (action_name MoveForward)) \<and>
   \<not> contains [(''action'', PStr ''move_forward''), (''agent_id'', PStr ''a'')] ''distance'' \<and>
   object_hook [(''action'', PStr ''move_forward''), (''agent_id'', PStr ''a'')] =
     Inl (KeyError ''distance'')"
proof -
  let ?obj = "[(''action'', PStr ''move_forward''), (''agent_id'', PStr ''a'')]"
  have a: "map_of ?obj ''action'' = Some (PStr (action_name MoveForward))"
    by (simp add: action_name_simps)
  have d: "\<not> contains ?obj ''distance''" by (simp add: contains_def)
  then have b: "\<exists>k\<in>set (required_keys MoveForward). \<not> contains ?obj k" by simp
  have f: "find (\<lambda>k. \<not> contains ?obj k) (required_keys MoveForward) = Some ''distance''"
    by (simp add: contains_def)
  have i: "all_iterable ?obj (tuple_reads_before MoveForward ''distance'')"
    by (simp add: all_iterable_def tuple_reads_before_def)
  from missing_field_error [OF a b] f i have "object_hook ?obj = Inl (KeyError ''distance'')"
    by auto
  with a d show ?thesis by blast
qed

section \<open>The encoder and the decoder on explicit dictionaries\<close>

lemmas init_defs =
  LookDown_init_def LookUp_init_def MoveForward_init_def MoveTangentially_init_def
  OrientHorizontal_init_def OrientVertical_init_def SetAgentPitch_init_def SetAgentPose_init_def
  SetSensorPitch_init_def SetSensorPose_init_def SetSensorRotation_init_def SetYaw_init_def
  TurnLeft_init_def TurnRight_init_def Action_init_def setattr_def new_instance_def

lemma plain_of_simps:
  "plain_of (Plain v) = v"
  "plain_of (Ndarray l) = l"
  by (simp_all add: plain_of_def)

lemma encoder_step:
  "(case value of Ndarray l \<Rightarrow> AList.update key l d | Plain v \<Rightarrow> AList.update key v d) =
   AList.update key (plain_of value) d"
  by (cases "value") (simp_all add: plain_of_def)

lemmas encoder_defs =
  ActionJSONEncoder_default_def init_defs action_iter_def dict_from_pairs_def name_def
  action_name_simps encoder_step plain_of_simps

lemma default_simps:
  "ActionJSONEncoder_default (LookDown_init a r (Some c)) =
     [(''action'', PStr ''look_down''), (''agent_id'', plain_of a),
      (''constraint_degrees'', plain_of c), (''rotation_degrees'', plain_of r)]"
  "ActionJSONEncoder_default (LookUp_init a r (Some c)) =
     [(''action'', PStr ''look_up''), (''agent_id'', plain_of a),
      (''constraint_degrees'', plain_of c), (''rotation_degrees'', plain_of r)]"
  "ActionJSONEncoder_default (MoveForward_init a d) =
     [(''action'', PStr ''move_forward''), (''agent_id'', plain_of a), (''distance'', plain_of d)]"
  "ActionJSONEncoder_default (MoveTangentially_init a d v) =
     [(''action'', PStr ''move_tangentially''), (''agent_id'', plain_of a),
      (''distance'', plain_of d), (''direction'', plain_of v)]"
  "ActionJSONEncoder_default (OrientHorizontal_init a r l f) =
     [(''action'', PStr ''orient_horizontal''), (''agent_id'', plain_of a),
      (''rotation_degrees'', plain_of r), (''left_distance'', plain_of l),
      (''forward_distance'', plain_of f)]"
  "ActionJSONEncoder_default (OrientVertical_init a r dn f) =
     [(''action'', PStr ''orient_vertical''), (''agent_id'', plain_of a),
      (''rotation_degrees'', plain_of r), (''down_distance'', plain_of dn),
      (''forward_distance'', plain_of f)]"
  "ActionJSONEncoder_default (SetAgentPitch_init a p) =
     [(''action'', PStr ''set_agent_pitch''), (''agent_id'', plain_of a),
      (''pitch_degrees'', plain_of p)]"
  "ActionJSONEncoder_default (SetAgentPose_init a loc q) =
     [(''action'', PStr ''set_agent_pose''), (''agent_id'', plain_of a),
      (''location'', plain_of loc), (''rotation_quat'', plain_of q)]"
  "ActionJSONEncoder_default (SetSensorPitch_init a p) =
     [(''action'', PStr ''set_sensor_pitch''), (''agent_id'', plain_of a),
      (''pitch_degrees'', plain_of p)]"
  "ActionJSONEncoder_default (SetSensorPose_init a loc q) =
     [(''action'', PStr ''set_sensor_pose''), (''agent_id'', plain_of a),
      (''location'', plain_of loc), (''rotation_quat'', plain_of q)]"
  "ActionJSONEncoder_default (SetSensorRotation_init a q) =
     [(''action'', PStr ''set_sensor_rotation''), (''agent_id'', plain_of a),
      (''rotation_quat'', plain_of q)]"
  "ActionJSONEncoder_default (SetYaw_init a r) =
     [(''action'', PStr ''set_yaw''), (''agent_id'', plain_of a), (''rotation_degrees'', plain_of r)]"
  "ActionJSONEncoder_default (TurnLeft_init a r) =
     [(''action'', PStr ''turn_left''), (''agent_id'', plain_of a),
      (''rotation_degrees'', plain_of r)]"
  "ActionJSONEncoder_default (TurnRight_init a r) =
     [(''action'', PStr ''turn_right''), (''agent_id'', plain_of a),
      (''rotation_degrees'', plain_of r)]"
  by (simp_all add: encoder_defs)

lemma default_arg_simps:
  "LookDown_init a r None = LookDown_init a r (Some (Plain (PFloat 90)))"
  "LookUp_init a r None = LookUp_init a r (Some (Plain (PFloat 90)))"
  by (simp_all add: LookDown_init_def LookUp_init_def)

lemmas decoder_defs = object_hook_def contains_def getitem_def bind_simps action_name_simps

lemma hook_simps:
  "object_hook [(''action'', PStr ''look_down''), (''agent_id'', a),
      (''constraint_degrees'', c), (''rotation_degrees'', r)] =
     Inr (LookDown_init (Plain a) (Plain r) (Some (Plain c)))"
  "object_hook [(''action'', PStr ''look_up''), (''agent_id'', a),
      (''constraint_degrees'', c), (''rotation_degrees'', r)] =
     Inr (LookUp_init (Plain a) (Plain r) (Some (Plain c)))"
  "object_hook [(''action'', PStr ''move_forward''), (''agent_id'', a), (''distance'', d)] =
     Inr (MoveForward_init (Plain a) (Plain d))"
  "object_hook [(''action'', PStr ''move_tangentially''), (''agent_id'', a),
      (''distance'', d), (''direction'', v)] =
     bind (py_tuple v) (\<lambda>direction.
       Inr (MoveTangentially_init (Plain a) (Plain d) (Plain direction)))"
  "object_hook [(''action'', PStr ''orient_horizontal''), (''agent_id'', a),
      (''rotation_degrees'', r), (''left_distance'', l), (''forward_distance'', f)] =
     Inr (OrientHorizontal_init (Plain a) (Plain r) (Plain l) (Plain f))"
  "object_hook [(''action'', PStr ''orient_vertical''), (''agent_id'', a),
      (''rotation_degrees'', r), (''down_distance'', dn), (''forward_distance'', f)] =
     Inr (OrientVertical_init (Plain a) (Plain r) (Plain dn) (Plain f))"
  "object_hook [(''action'', PStr ''set_agent_pitch''), (''agent_id'', a), (''pitch_degrees'', p)] =
     Inr (SetAgentPitch_init (Plain a) (Plain p))"
  "object_hook [(''action'', PStr ''set_agent_pose''), (''agent_id'', a),
      (''location'', loc), (''rotation_quat'', q)] =
     bind (py_tuple loc) (\<lambda>location. bind (py_tuple q) (\<lambda>rotation_quat.
       Inr (SetAgentPose_init (Plain a) (Plain location) (Plain rotation_quat))))"
  "object_hook [(''action'', PStr ''set_sensor_pitch''), (''agent_id'', a), (''pitch_degrees'', p)] =
     Inr (SetSensorPitch_init (Plain a) (Plain p))"
  "object_hook [(''action'', PStr ''set_sensor_pose''), (''agent_id'', a),
      (''location'', loc), (''rotation_quat'', q)] =
     bind (py_tuple loc) (\<lambda>location. bind (py_tuple q) (\<lambda>rotation_quat.
       Inr (SetSensorPose_init (Plain a) (Plain location) (Plain rotation_quat))))"
  "object_hook [(''action'', PStr ''set_sensor_rotation''), (''agent_id'', a), (''rotation_quat'', q)] =
     bind (py_tuple q) (\<lambda>rotation_quat.
       Inr (SetSensorRotation_init (Plain a) (Plain rotation_quat)))"
  "object_hook [(''action'', PStr ''set_yaw''), (''agent_id'', a), (''rotation_degrees'', r)] =
     Inr (SetYaw_init (Plain a) (Plain r))"
  "object_hook [(''action'', PStr ''turn_left''), (''agent_id'', a), (''rotation_degrees'', r)] =
     Inr (TurnLeft_init (Plain a) (Plain r))"
  "object_hook [(''action'', PStr ''turn_right''), (''agent_id'', a), (''rotation_degrees'', r)] =
     Inr (TurnRight_init (Plain a) (Plain r))"
  by (simp_all add: decoder_defs)

lemma json_value_floats: "json_value \<circ> PFloat = PFloat"
  by (simp add: fun_eq_iff)

lemmas roundtrip_simps =
  roundtrips_def roundtrips_json_def decode_encode_def decode_json_encode_def json_loads_dumps_def default_simps
  hook_simps plain_of_simps bind_simps json_value_floats

lemma object_hook_without:
  assumes "''action'' \<notin> set extra"
      and "map_of obj ''action'' = Some (PStr (action_name c))"
      and "set extra \<inter> set (required_keys c) = {}"
  shows "object_hook (without extra obj) = object_hook obj"
proof -
  from assms(1,2) have a: "map_of (without extra obj) ''action'' = Some (PStr (action_name c))"
    by (simp add: map_of_without)
  have "read_args (without extra obj) (tuple_keys c) (required_keys c) =
        read_args obj (tuple_keys c) (required_keys c)"
    using assms(3) by (intro read_args_cong map_of_without) auto
  then show ?thesis
    by (simp add: object_hook_known [OF a] object_hook_known [OF assms(2)])
qed

section \<open>The encoder's dictionary\<close>

text \<open>
  Claim C2, as stated: the encoder's keys are \<open>"action"\<close>, then the fields in the order of
  the table of section 3, \<open>agent_id\<close> included. For \<open>LookDown\<close> the table gives
  \<open>rotation_degrees\<close> before \<open>constraint_degrees\<close>; the constructor assigns
  \<open>constraint_degrees\<close> first, and the encoder follows the order of assignment.
\<close>

theorem encoder_key_order_counterexample:
  "map fst (ActionJSONEncoder_default
     (LookDown_init (str_attr ''a'') (float_attr 10) (Some (float_attr 90)))) =
     [''action'', ''agent_id'', ''constraint_degrees'', ''rotation_degrees''] \<and>
   ''action'' # ''agent_id'' # spec_table_fields LookDown =
     [''action'', ''agent_id'', ''rotation_degrees'', ''constraint_degrees''] \<and>
   map fst (ActionJSONEncoder_default
     (LookDown_init (str_attr ''a'') (float_attr 10) (Some (float_attr 90)))) \<noteq>
     ''action'' # ''agent_id'' # spec_table_fields LookDown"
  by (simp add: default_simps)

text \<open>
  Claim C2, amended. For every variant instance the encoder's dictionary has \<open>"action"\<close>
  first, mapped to the derived name, then every attribute under its own name in the order
  in which the constructor assigns them: \<open>agent_id\<close>, and then, for \<open>LookDown\<close> and
  \<open>LookUp\<close>, \<open>constraint_degrees\<close> before \<open>rotation_degrees\<close>, and for the twelve other
  variants the fields in the order of the table of section 3. No attribute is left out
  and there is no \<open>"name"\<close> key. The value stored is the attribute itself, or its
  \<open>tolist()\<close> when it is an array.
\<close>

theorem encoder_key_order:
  "ActionJSONEncoder_default (LookDown_init a r (Some c)) =
     [(''action'', PStr ''look_down''), (''agent_id'', plain_of a),
      (''constraint_degrees'', plain_of c), (''rotation_degrees'', plain_of r)] \<and>
   ActionJSONEncoder_default (LookUp_init a r (Some c)) =
     [(''action'', PStr ''look_up''), (''agent_id'', plain_of a),
      (''constraint_degrees'', plain_of c), (''rotation_degrees'', plain_of r)] \<and>
   ActionJSONEncoder_default (MoveForward_init a d) =
     [(''action'', PStr ''move_forward''), (''agent_id'', plain_of a), (''distance'', plain_of d)] \<and>
   ActionJSONEncoder_default (MoveTangentially_init a d v) =
     [(''action'', PStr ''move_tangentially''), (''agent_id'', plain_of a),
      (''distance'', plain_of d), (''direction'', plain_of v)] \<and>
   ActionJSONEncoder_default (OrientHorizontal_init a r l f) =
     [(''action'', PStr ''orient_horizontal''), (''agent_id'', plain_of a),
      (''rotation_degrees'', plain_of r), (''left_distance'', plain_of l),
      (''forward_distance'', plain_of f)] \<and>
   ActionJSONEncoder_default (OrientVertical_init a r dn f) =
     [(''action'', PStr ''orient_vertical''), (''agent_id'', plain_of a),
      (''rotation_degrees'', plain_of r), (''down_distance'', plain_of dn),
      (''forward_distance'', plain_of f)] \<and>
   ActionJSONEncoder_default (SetAgentPitch_init a p) =
     [(''action'', PStr ''set_agent_pitch''), (''agent_id'', plain_of a),
      (''pitch_degrees'', plain_of p)] \<and>
   ActionJSONEncoder_default (SetAgentPose_init a loc q) =
     [(''action'', PStr ''set_agent_pose''), (''agent_id'', plain_of a),
      (''location'', plain_of loc), (''rotation_quat'', plain_of q)] \<and>
   ActionJSONEncoder_default (SetSensorPitch_init a p) =
     [(''action'', PStr ''set_sensor_pitch''), (''agent_id'', plain_of a),
      (''pitch_degrees'', plain_of p)] \<and>
   ActionJSONEncoder_default (SetSensorPose_init a loc q) =
     [(''action'', PStr ''set_sensor_pose''), (''agent_id'', plain_of a),
      (''location'', plain_of loc), (''rotation_quat'', plain_of q)] \<and>
   ActionJSONEncoder_default (SetSensorRotation_init a q) =
     [(''action'', PStr ''set_sensor_rotation''), (''agent_id'', plain_of a),
      (''rotation_quat'', plain_of q)] \<and>
   ActionJSONEncoder_default (SetYaw_init a r) =
     [(''action'', PStr ''set_yaw''), (''agent_id'', plain_of a), (''rotation_degrees'', plain_of r)] \<and>
   ActionJSONEncoder_default (TurnLeft_init a r) =
     [(''action'', PStr ''turn_left''), (''agent_id'', plain_of a),
      (''rotation_degrees'', plain_of r)] \<and>
   ActionJSONEncoder_default (TurnRight_init a r) =
     [(''action'', PStr ''turn_right''), (''agent_id'', plain_of a),
      (''rotation_degrees'', plain_of r)]"
  by (simp add: default_simps)

section \<open>Round trip\<close>



text \<open>
  Claim C7. \<open>LookDown\<close> and \<open>LookUp\<close> constructed with \<open>agent_id\<close> and \<open>rotation_degrees\<close>
  only have \<open>constraint_degrees\<close> equal to \<open>90.0\<close>, and the instance decoded from the
  encoding has \<open>constraint_degrees\<close> equal to \<open>90.0\<close> as well, with or without the JSON
  text in between.
\<close>

theorem default_constraint_degrees:
  "getattr (LookDown_init agent_id rotation_degrees None) ''constraint_degrees'' =
     Inr (float_attr 90) \<and>
   getattr (LookUp_init agent_id rotation_degrees None) ''constraint_degrees'' =
     Inr (float_attr 90) \<and>
   bind (decode_encode (LookDown_init (str_attr s) (float_attr x) None))
     (\<lambda>a. getattr a ''constraint_degrees'') = Inr (float_attr 90) \<and>
   bind (decode_encode (LookUp_init (str_attr s) (float_attr x) None))
     (\<lambda>a. getattr a ''constraint_degrees'') = Inr (float_attr 90) \<and>
   bind (decode_json_encode (LookDown_init (str_attr s) (float_attr x) None))
     (\<lambda>a. getattr a ''constraint_degrees'') = Inr (float_attr 90) \<and>
   bind (decode_json_encode (LookUp_init (str_attr s) (float_attr x) None))
     (\<lambda>a. getattr a ''constraint_degrees'') = Inr (float_attr 90) \<and>
   getattr (LookDown_init agent_id rotation_degrees None) ''rotation_degrees'' =
     Inr rotation_degrees"
  by (simp add: default_arg_simps roundtrip_simps)
     (simp add: getattr_def init_defs)

section \<open>What the decoder does not check\<close>

text \<open>
  Claim C8. The decoder turns the value of a vector or quaternion key into a tuple and
  checks no length: a list of any length \<open>xs\<close> is accepted and the instance holds the
  tuple of the same elements. With \<open>"location": [0.0, 1.0]\<close> decoding \<open>set_agent_pose\<close>
  succeeds and \<open>location\<close> is the tuple \<open>(0.0, 1.0)\<close> of length two.
\<close>

theorem no_arity_check:
  "object_hook [(''action'', PStr ''move_tangentially''), (''agent_id'', a), (''distance'', d),
                (''direction'', PList xs)] =
     Inr (MoveTangentially_init (Plain a) (Plain d) (Plain (PTuple xs))) \<and>
   object_hook [(''action'', PStr ''set_agent_pose''), (''agent_id'', a), (''location'', PList xs),
                (''rotation_quat'', PList q)] =
     Inr (SetAgentPose_init (Plain a) (Plain (PTuple xs)) (Plain (PTuple q))) \<and>
   object_hook [(''action'', PStr ''set_sensor_pose''), (''agent_id'', a), (''location'', PList xs),
                (''rotation_quat'', PList q)] =
     Inr (SetSensorPose_init (Plain a) (Plain (PTuple xs)) (Plain (PTuple q))) \<and>
   object_hook [(''action'', PStr ''set_sensor_rotation''), (''agent_id'', a),
                (''rotation_quat'', PList q)] =
     Inr (SetSensorRotation_init (Plain a) (Plain (PTuple q))) \<and>
   bind (object_hook [(''action'', PStr ''set_agent_pose''), (''agent_id'', PStr ''agent_01''),
                      (''location'', PList [PFloat 0, PFloat 1]),
                      (''rotation_quat'', PList [PFloat 1, PFloat 0, PFloat 0, PFloat 0])])
        (\<lambda>a. getattr a ''location'') = Inr (Plain (PTuple [PFloat 0, PFloat 1])) \<and>
   length [PFloat 0, PFloat 1] = 2"
  by (simp add: hook_simps bind_simps getattr_def init_defs)

text \<open>
  Claim C10. A \<open>look_down\<close> or \<open>look_up\<close> object with \<open>agent_id\<close> and \<open>rotation_degrees\<close>
  but without \<open>constraint_degrees\<close> is rejected with \<open>KeyError('constraint_degrees')\<close>: the
  decoder reads the key unconditionally and never falls back on the default, although
  the constructor called without \<open>constraint_degrees\<close> succeeds with \<open>90.0\<close>.
\<close>

theorem decoder_requires_constraint_degrees:
  assumes "map_of obj ''action'' = Some (PStr ''look_down'') \<or>
           map_of obj ''action'' = Some (PStr ''look_up'')"
      and "contains obj ''agent_id''" and "contains obj ''rotation_degrees''"
      and "\<not> contains obj ''constraint_degrees''"
  shows "object_hook obj = Inl (KeyError ''constraint_degrees'') \<and>
         getattr (LookDown_init agent_id rotation_degrees None) ''constraint_degrees'' =
           Inr (Plain (PFloat 90)) \<and>
         getattr (LookUp_init agent_id rotation_degrees None) ''constraint_degrees'' =
           Inr (Plain (PFloat 90))"
proof -
  from assms have "object_hook obj = Inl (KeyError ''constraint_degrees'')"
    by (auto simp: object_hook_def contains_iff getitem_def bind_simps action_name_simps)
  then show ?thesis
    by (simp add: getattr_def LookDown_init_def LookUp_init_def Action_init_def setattr_def
        new_instance_def)
qed

theorem decoder_requires_constraint_degrees_witness:
  "object_hook [(''action'', PStr ''look_down''), (''agent_id'', PStr ''a''),
                (''rotation_degrees'', PFloat 10)] = Inl (KeyError ''constraint_degrees'') \<and>
   object_hook [(''action'', PStr ''look_up''), (''agent_id'', PStr ''a''),
                (''rotation_degrees'', PFloat 10)] = Inl (KeyError ''constraint_degrees'') \<and>
   getattr (LookDown_init (Plain (PStr ''a'')) (Plain (PFloat 10)) None) ''constraint_degrees'' =
     Inr (Plain (PFloat 90))"
  using decoder_requires_constraint_degrees [of "[(''action'', PStr ''look_down''),
          (''agent_id'', PStr ''a''), (''rotation_degrees'', PFloat 10)]"
          "Plain (PStr ''a'')" "Plain (PFloat 10)"]
        decoder_requires_constraint_degrees [of "[(''action'', PStr ''look_up''),
          (''agent_id'', PStr ''a''), (''rotation_degrees'', PFloat 10)]"
          "Plain (PStr ''a'')" "Plain (PFloat 10)"]
  by (simp add: contains_def)

text \<open>
  Claim C9, as stated: an object with a known \<open>"action"\<close>, all required keys and extra
  keys always decodes. The object
  \<^verbatim>\<open>{"action": "set_sensor_rotation", "agent_id": "a", "rotation_quat": 1.0, "note": "x"}\<close>
  has all the keys of \<open>set_sensor_rotation\<close> and one extra key, and decoding it raises
  the \<open>TypeError\<close> of \<open>tuple(1.0)\<close>.
\<close>

theorem extra_keys_counterexample:
  "map_of [(''action'', PStr ''set_sensor_rotation''), (''agent_id'', PStr ''a''),
           (''rotation_quat'', PFloat 1), (''note'', PStr ''x'')] ''action'' =
     Some (PStr (action_name SetSensorRotation)) \<and>
   list_all (contains [(''action'', PStr ''set_sensor_rotation''), (''agent_id'', PStr ''a''),
           (''rotation_quat'', PFloat 1), (''note'', PStr ''x'')]) (required_keys SetSensorRotation) \<and>
   ''note'' \<notin> set (''action'' # required_keys SetSensorRotation) \<and>
   object_hook [(''action'', PStr ''set_sensor_rotation''), (''agent_id'', PStr ''a''),
           (''rotation_quat'', PFloat 1), (''note'', PStr ''x'')] = Inl (TypeError (PFloat 1)) \<and>
   (\<forall>a. object_hook [(''action'', PStr ''set_sensor_rotation''), (''agent_id'', PStr ''a''),
           (''rotation_quat'', PFloat 1), (''note'', PStr ''x'')] \<noteq> Inr a)"
  by (simp add: object_hook_def contains_def getitem_def bind_simps action_name_simps)

text \<open>
  Claim C9, amended. For a wire object with a known \<open>"action"\<close> of class \<open>c\<close>, all the
  required keys of \<open>c\<close> and any extra keys, decoding returns exactly what decoding the
  object without the extra keys returns: extra keys are ignored and never cause an
  error. Decoding succeeds with an instance of \<open>c\<close> whenever every vector or quaternion
  key holds an iterable value (a list, a tuple or a string); otherwise it fails, with or
  without the extra keys, with the \<open>TypeError\<close> of \<open>tuple()\<close>.
\<close>

theorem extra_keys_ignored:
  assumes "map_of obj ''action'' = Some (PStr (action_name c))"
      and "\<forall>k\<in>set (required_keys c). contains obj k"
      and "\<forall>k\<in>set extra. k \<notin> set (''action'' # required_keys c)"
  shows "object_hook obj = object_hook (without extra obj) \<and>
         (all_iterable obj (tuple_keys c) \<longrightarrow>
            (\<exists>a. object_hook obj = Inr a \<and> inst_class a = c \<and> name a = action_name c)) \<and>
         (\<not> all_iterable obj (tuple_keys c) \<longrightarrow> (\<exists>v. object_hook obj = Inl (TypeError v)))"
proof -
  from assms(3) have e: "''action'' \<notin> set extra" "set extra \<inter> set (required_keys c) = {}"
    by auto
  have 1: "object_hook obj = object_hook (without extra obj)"
    using object_hook_without [OF e(1) assms(1) e(2)] by simp
  from assms(2) have p: "\<forall>k\<in>set (required_keys c). map_of obj k \<noteq> None"
    by (simp add: contains_iff)
  note hook = object_hook_known [OF assms(1)]
  have 2: "\<exists>a. object_hook obj = Inr a \<and> inst_class a = c \<and> name a = action_name c"
    if "all_iterable obj (tuple_keys c)"
  proof -
    from that have "all_iterable obj (filter (\<lambda>k. k \<in> set (tuple_keys c)) (required_keys c))"
      by (simp add: tuple_keys_required)
    from read_args_succeeds [OF p this] obtain vs
      where "read_args obj (tuple_keys c) (required_keys c) = Inr vs" by blast
    then have "object_hook obj = Inr (construct c vs)" by (simp add: hook bind_simps)
    then show ?thesis by (simp add: construct_class name_def)
  qed
  have 3: "\<exists>v. object_hook obj = Inl (TypeError v)" if "\<not> all_iterable obj (tuple_keys c)"
  proof -
    from that have "\<not> all_iterable obj (filter (\<lambda>k. k \<in> set (tuple_keys c)) (required_keys c))"
      by (simp add: tuple_keys_required)
    from read_args_type_error [OF p this] obtain v
      where "read_args obj (tuple_keys c) (required_keys c) = Inl (TypeError v)" by blast
    then have "object_hook obj = Inl (TypeError v)" by (simp add: hook bind_simps)
    then show ?thesis by blast
  qed
  from 1 2 3 show ?thesis by blast
qed

theorem extra_keys_ignored_witness:
  "object_hook [(''action'', PStr ''move_forward''), (''comment'', PStr ''x''),
                (''agent_id'', PStr ''agent_01''), (''distance'', PFloat 0.25), (''seq'', PInt 7)] =
     object_hook [(''action'', PStr ''move_forward''), (''agent_id'', PStr ''agent_01''),
                  (''distance'', PFloat 0.25)] \<and>
   object_hook [(''action'', PStr ''move_forward''), (''comment'', PStr ''x''),
                (''agent_id'', PStr ''agent_01''), (''distance'', PFloat 0.25), (''seq'', PInt 7)] =
     Inr (MoveForward_init (Plain (PStr ''agent_01'')) (Plain (PFloat 0.25)))"
proof -
  let ?obj = "[(''action'', PStr ''move_forward''), (''comment'', PStr ''x''),
                (''agent_id'', PStr ''agent_01''), (''distance'', PFloat 0.25), (''seq'', PInt 7)]"
  let ?extra = "[''comment'', ''seq'']"
  have a: "map_of ?obj ''action'' = Some (PStr (action_name MoveForward))"
    by (simp add: action_name_simps)
  have b: "\<forall>k\<in>set (required_keys MoveForward). contains ?obj k"
    by (simp add: contains_def)
  have c: "\<forall>k\<in>set ?extra. k \<notin> set (''action'' # required_keys MoveForward)"
    by simp
  have w: "without ?extra ?obj = [(''action'', PStr ''move_forward''),
             (''agent_id'', PStr ''agent_01''), (''distance'', PFloat 0.25)]"
    by (simp add: without_def)
  have i: "all_iterable ?obj (tuple_keys MoveForward)" by (simp add: all_iterable_def)
  have v: "object_hook [(''action'', PStr ''move_forward''),
             (''agent_id'', PStr ''agent_01''), (''distance'', PFloat 0.25)] =
           Inr (MoveForward_init (Plain (PStr ''agent_01'')) (Plain (PFloat 0.25)))"
    by (simp add: object_hook_def contains_def getitem_def bind_simps action_name_simps)
  from extra_keys_ignored [OF a b c] w v show ?thesis by simp
qed

end
